theory Spec2Isabelle
  imports
    Complex_Main
    "HOL-Library.AList"
    "HOL-Library.Char_ord"
    "HOL-Library.List_Lexorder"
    "HOL-Library.Product_Lexorder"
    "HOL-Library.Multiset"
    "HOL-Library.Sublist"
begin

unbundle bit_operations_syntax

section \<open>Data model\<close>

text \<open>
  A floating-point value as a comparison sees it: a number, an infinity or NaN. The
  confidences are \<^verbatim>\<open>numpy.float32\<close> values and the threshold is a Python float
  (\<^verbatim>\<open>argparse\<close> with \<^verbatim>\<open>type=float\<close> accepts \<^verbatim>\<open>nan\<close> and \<^verbatim>\<open>inf\<close>); both kinds
  are values of this type.
\<close>

datatype pyfloat = Finite real | Pos_inf | Neg_inf | NaN

text \<open>
  The comparisons \<^verbatim>\<open><\<close> and \<^verbatim>\<open><=\<close> of floating-point values: every comparison
  with NaN is false.
\<close>

fun flt_less :: "pyfloat \<Rightarrow> pyfloat \<Rightarrow> bool" where
  "flt_less NaN y = False"
| "flt_less x NaN = False"
| "flt_less (Finite x) (Finite y) = (x < y)"
| "flt_less Neg_inf Neg_inf = False"
| "flt_less Neg_inf y = True"
| "flt_less Pos_inf y = False"
| "flt_less (Finite x) Pos_inf = True"
| "flt_less (Finite x) Neg_inf = False"

fun flt_le :: "pyfloat \<Rightarrow> pyfloat \<Rightarrow> bool" where
  "flt_le NaN y = False"
| "flt_le x NaN = False"
| "flt_le (Finite x) (Finite y) = (x \<le> y)"
| "flt_le Neg_inf y = True"
| "flt_le x Pos_inf = True"
| "flt_le x y = False"

text \<open>
  One detection is one element of \<^verbatim>\<open>zip(r.boxes.xyxy, r.boxes.conf, r.boxes.cls)\<close>:
  a box of four coordinates, a confidence and a class id. The confidence is kept as
  the floating-point value it is, since the program compares it; the coordinates and
  the class id are only truncated to integers and are kept as numbers.
\<close>

record detection =
  box :: "real \<times> real \<times> real \<times> real"
  conf :: pyfloat
  cls :: real

text \<open>One element \<^verbatim>\<open>r\<close> of the model's result list, with its \<^verbatim>\<open>names\<close> table.\<close>

record result =
  boxes :: "detection list"
  rnames :: "int \<Rightarrow> string"

text \<open>
  The result list of one model call, with \<^verbatim>\<open>results.names\<close>. A table of names is
  a total function: the model names every class it reports, so \<^verbatim>\<open>names[int(cls)]\<close>
  finds its key.
\<close>

record results =
  names :: "int \<Rightarrow> string"
  rs :: "result list"

text \<open>
  A Python \<^verbatim>\<open>dict\<close> from labels to integers, as an association list in insertion
  order. \<^verbatim>\<open>d[k] = v\<close> is \<^const>\<open>AList.update\<close>: it replaces the value of a key
  that is present, in place, and appends a new key at the end.
\<close>

type_synonym counts = "(string \<times> int) list"

definition dict_get :: "counts \<Rightarrow> string \<Rightarrow> int \<Rightarrow> int" where
  \<comment> \<open>\<^verbatim>\<open>counts.get(k, dflt)\<close>\<close>
  "dict_get counts k dflt = (case map_of counts k of None \<Rightarrow> dflt | Some v \<Rightarrow> v)"

definition py_int :: "real \<Rightarrow> int" where
  \<comment> \<open>\<^verbatim>\<open>int(x)\<close> on a float: truncation towards zero\<close>
  "py_int x = (if 0 \<le> x then \<lfloor>x\<rfloor> else \<lceil>x\<rceil>)"

section \<open>Counting: \<^verbatim>\<open>count_per_class\<close>\<close>

text \<open>
  Lines 15 and 16, the part of the loop body after the test: the label of the
  detection is looked up and its count incremented.
\<close>

definition bump :: "(int \<Rightarrow> string) \<Rightarrow> counts \<Rightarrow> detection \<Rightarrow> counts" where
  "bump nm counts d =
     (let label = nm (py_int (cls d))
      in AList.update label (dict_get counts label 0 + 1) counts)"

text \<open>
  The test \<^verbatim>\<open>conf < conf_thresh\<close> of lines 13 and 24 compares a \<^verbatim>\<open>numpy.float32\<close>
  with a Python float. What numpy does with the Python float before it compares is
  not the program's: up to NumPy 1 the confidence is promoted to double precision and
  the threshold is compared as it is, from NumPy 2 on the threshold is first rounded
  to single precision. That conversion is the parameter \<open>cast\<close> of the functions
  below; the confidence is compared as it is in both cases.
\<close>

definition below :: "(pyfloat \<Rightarrow> pyfloat) \<Rightarrow> pyfloat \<Rightarrow> pyfloat \<Rightarrow> bool" where
  \<comment> \<open>\<^verbatim>\<open>conf < conf_thresh\<close>\<close>
  "below cast c conf_thresh = flt_less c (cast conf_thresh)"

text \<open>A conversion that keeps the order of thresholds.\<close>

definition order_preserving :: "(pyfloat \<Rightarrow> pyfloat) \<Rightarrow> bool" where
  "order_preserving cast = (\<forall>a b. flt_le a b \<longrightarrow> flt_le (cast a) (cast b))"

text \<open>
  The whole body of the inner loop (lines 13 to 16): a detection below the threshold
  is skipped by \<^verbatim>\<open>continue\<close>.
\<close>

definition count_step ::
  "(pyfloat \<Rightarrow> pyfloat) \<Rightarrow> (int \<Rightarrow> string) \<Rightarrow> pyfloat \<Rightarrow> counts \<Rightarrow> detection \<Rightarrow> counts" where
  "count_step cast nm conf_thresh counts d =
     (if below cast (conf d) conf_thresh then counts else bump nm counts d)"

text \<open>The inner loop over the detections of one result, and the outer loop over the results.\<close>

definition count_result ::
  "(pyfloat \<Rightarrow> pyfloat) \<Rightarrow> (int \<Rightarrow> string) \<Rightarrow> pyfloat \<Rightarrow> counts \<Rightarrow> result \<Rightarrow> counts" where
  "count_result cast nm conf_thresh counts r =
     foldl (count_step cast nm conf_thresh) counts (boxes r)"

definition count_loop :: "(pyfloat \<Rightarrow> pyfloat) \<Rightarrow> results \<Rightarrow> pyfloat \<Rightarrow> counts" where
  "count_loop cast results conf_thresh =
     foldl (count_result cast (names results) conf_thresh) [] (rs results)"

text \<open>
  Line 17: the sum of the values of every key other than \<^verbatim>\<open>"__total"\<close> is computed
  first and then stored under the key \<^verbatim>\<open>"__total"\<close> of the same dictionary.
\<close>

definition store_total :: "counts \<Rightarrow> counts" where
  "store_total counts =
     AList.update ''__total''
       (sum_list (map snd (filter (\<lambda>(k, v). k \<noteq> ''__total'') counts))) counts"

definition count_per_class :: "(pyfloat \<Rightarrow> pyfloat) \<Rightarrow> results \<Rightarrow> pyfloat \<Rightarrow> counts" where
  "count_per_class cast results conf_thresh =
     store_total (count_loop cast results conf_thresh)"

text \<open>
  The two readings of a snapshot that the program makes (lines 38, 39, 105 and 106):
  the total, \<^verbatim>\<open>counts.get("__total", 0)\<close>, and the per-category items,
  \<^verbatim>\<open>(k,v) for k,v in counts.items() if k != "__total"\<close>.
\<close>

definition total_of :: "counts \<Rightarrow> int" where
  "total_of counts = dict_get counts ''__total'' 0"

definition per_category :: "counts \<Rightarrow> (string \<times> int) list" where
  "per_category counts = filter (\<lambda>(k, v). k \<noteq> ''__total'') counts"

section \<open>The detection filter\<close>

text \<open>
  The filter is not a function of its own in the program: it is the test
  \<^verbatim>\<open>if conf < conf_thresh: continue\<close> at the head of both loops over detections
  (lines 13 and 24). \<open>accepted\<close> is that loop skeleton alone: it returns the
  detections for which the loop body goes on past the test.
\<close>

fun accepted :: "(pyfloat \<Rightarrow> pyfloat) \<Rightarrow> pyfloat \<Rightarrow> detection list \<Rightarrow> detection list" where
  "accepted cast conf_thresh [] = []"
| "accepted cast conf_thresh (d # ds) =
     (if below cast (conf d) conf_thresh then accepted cast conf_thresh ds
      else d # accepted cast conf_thresh ds)"

text \<open>All detections that one call of \<^verbatim>\<open>count_per_class\<close> walks through, in order.\<close>

definition all_boxes :: "results \<Rightarrow> detection list" where
  "all_boxes results = concat (map boxes (rs results))"

definition label_of :: "(int \<Rightarrow> string) \<Rightarrow> detection \<Rightarrow> string" where
  \<comment> \<open>\<^verbatim>\<open>names[int(cls)]\<close>, the label a detection resolves to\<close>
  "label_of nm d = nm (py_int (cls d))"

text \<open>Number of accepted detections of a list that resolve to a given label.\<close>

definition hits ::
  "(pyfloat \<Rightarrow> pyfloat) \<Rightarrow> (int \<Rightarrow> string) \<Rightarrow> pyfloat \<Rightarrow> detection list \<Rightarrow> string \<Rightarrow> nat" where
  "hits cast nm conf_thresh ds l =
     length (filter (\<lambda>d. label_of nm d = l) (accepted cast conf_thresh ds))"

section \<open>Annotation: \<^verbatim>\<open>annotate_frame\<close>\<close>

text \<open>
  A frame is modelled by the drawing calls applied to it, in order. Texts are kept
  structured instead of formatted: \<open>Det_label l c\<close> is
  \<^verbatim>\<open>f"{l} {c*100:.0f}%"\<close>, \<open>Total_text n\<close> is \<^verbatim>\<open>f"Total: {n}"\<close> and
  \<open>Class_text k v\<close> is \<^verbatim>\<open>f"{k}: {v}"\<close>. Colours and fonts are constants of the
  program and are left out; the third argument of \<open>Rectangle\<close> is the thickness
  (\<open>-1\<close> fills it).
\<close>

datatype caption = Det_label string pyfloat | Total_text int | Class_text string int

datatype draw_op =
    Rectangle "int \<times> int" "int \<times> int" int
  | Put_text caption "int \<times> int"

type_synonym frame = "draw_op list"

text \<open>
  Lines 26 to 31, the part of the loop body after the test. \<open>tw\<close> is the width
  that \<^verbatim>\<open>cv2.getTextSize\<close> returns for a label.
\<close>

definition draw_detection :: "(caption \<Rightarrow> int) \<Rightarrow> (int \<Rightarrow> string) \<Rightarrow> detection \<Rightarrow> draw_op list" where
  "draw_detection tw nm d =
     (case box d of (bx1, by1, bx2, by2) \<Rightarrow>
        let x1 = py_int bx1; y1 = py_int by1; x2 = py_int bx2; y2 = py_int by2;
            label = Det_label (nm (py_int (cls d))) (conf d)
        in [Rectangle (x1, y1) (x2, y2) 2,
            Rectangle (x1, y1 - 18) (x1 + tw label + 6, y1) (- 1),
            Put_text label (x1 + 3, y1 - 5)])"

definition annotate_step ::
  "(pyfloat \<Rightarrow> pyfloat) \<Rightarrow> (caption \<Rightarrow> int) \<Rightarrow> (int \<Rightarrow> string) \<Rightarrow> pyfloat \<Rightarrow> frame \<Rightarrow> detection
   \<Rightarrow> frame" where
  "annotate_step cast tw nm conf_thresh frame d =
     (if below cast (conf d) conf_thresh then frame else frame @ draw_detection tw nm d)"

definition annotate_frame ::
  "(pyfloat \<Rightarrow> pyfloat) \<Rightarrow> (caption \<Rightarrow> int) \<Rightarrow> frame \<Rightarrow> result \<Rightarrow> (int \<Rightarrow> string) \<Rightarrow> pyfloat
   \<Rightarrow> frame" where
  "annotate_frame cast tw frame r nm conf_thresh =
     foldl (annotate_step cast tw nm conf_thresh) frame (boxes r)"

section \<open>Snapshot writer: \<^verbatim>\<open>save_counts_csv\<close>\<close>

text \<open>
  A row is the list handed to \<^verbatim>\<open>csv.writer.writerow\<close>; a cell is a string or an
  integer. The text of a row (fields joined by commas, with the quoting rules of the
  \<^verbatim>\<open>csv\<close> module) is the library's and is not modelled.
\<close>

datatype cell = Str string | Num int

type_synonym row = "cell list"

text \<open>
  \<^verbatim>\<open>sorted((k,v) for k,v in counts.items() if k!="__total")\<close>: the pairs are sorted
  as tuples, strings by code point.
\<close>

definition sorted_items :: "counts \<Rightarrow> (string \<times> int) list" where
  "sorted_items counts = sort (filter (\<lambda>(k, v). k \<noteq> ''__total'') counts)"

definition csv_rows :: "counts \<Rightarrow> row list" where
  "csv_rows counts =
     [Str ''class'', Str ''count'']
     # [Str ''total'', Num (dict_get counts ''__total'' 0)]
     # map (\<lambda>(k, v). [Str k, Num v]) (sorted_items counts)"

section \<open>The program state and its surroundings\<close>

text \<open>
  What the program does to the outside is kept as a trace of events, in the order of
  the calls; the files it writes are kept as a map from paths to rows.
\<close>

datatype cap_source = Device int | Path_source string

datatype event =
    Load_model string
  | Model_call
  | Print_counts counts
  | Print_saved_csv string
  | Print_saved_image string
  | Print_saving_to string
  | Print_final_counts counts
  | Open_write string
  | Imread string
  | Imwrite string frame
  | Cap_open cap_source
  | Cap_read
  | Cap_release
  | Writer_open string real "int \<times> int"
  | Writer_write frame
  | Writer_release
  | Named_window
  | Imshow frame
  | Wait_key
  | Destroy_all_windows

record world =
  files :: "string \<rightharpoonup> row list"
  trace :: "event list"

definition emit :: "event list \<Rightarrow> world \<Rightarrow> world" where
  "emit es w = w\<lparr>trace := trace w @ es\<rparr>"

datatype error = OSError string | IndexError | AttributeError

text \<open>
  \<^verbatim>\<open>save_counts_csv\<close> (lines 34 to 40). \<open>can_open\<close> is the answer of the file
  system to \<^verbatim>\<open>open(out_csv, "w")\<close>: where it fails the exception leaves the
  function and no file changes; where it succeeds the file holds the rows of this
  call and nothing else, since mode \<^verbatim>\<open>"w"\<close> truncates.
\<close>

definition save_counts_csv :: "counts \<Rightarrow> string \<Rightarrow> bool \<Rightarrow> world \<Rightarrow> error option \<times> world" where
  "save_counts_csv counts out_csv can_open w =
     (let w1 = emit [Open_write out_csv] w
      in if can_open
         then (None, w1\<lparr>files := (files w1)(out_csv \<mapsto> csv_rows counts)\<rparr>)
         else (Some (OSError out_csv), w1))"

text \<open>The parsed command line (lines 43 to 49).\<close>

record args =
  source :: string
  model :: string
  args_conf :: pyfloat
  save :: bool
  csv :: "string option"

definition truthy :: "string option \<Rightarrow> bool" where
  \<comment> \<open>\<^verbatim>\<open>if args.csv\<close>: neither \<^verbatim>\<open>None\<close> nor the empty string\<close>
  "truthy p = (case p of None \<Rightarrow> False | Some s \<Rightarrow> s \<noteq> [])"

text \<open>
  What a call of the model answers. \<^verbatim>\<open>model(...)\<close> and \<^verbatim>\<open>model.predict(...)\<close> of
  the \<^verbatim>\<open>ultralytics\<close> library answer a Python list of result objects, \<open>Plain\<close>. A
  list has no attribute \<^verbatim>\<open>names\<close>; \<open>Named\<close> is an answer that carries one beside
  its results, which is what line 8 of \<^verbatim>\<open>count_per_class\<close> reads.
\<close>

datatype model_output = Plain "result list" | Named results

definition entries :: "model_output \<Rightarrow> result list" where
  \<comment> \<open>the results that \<^verbatim>\<open>results[0]\<close> indexes\<close>
  "entries out = (case out of Plain xs \<Rightarrow> xs | Named r \<Rightarrow> rs r)"

text \<open>
  The calls \<^verbatim>\<open>count_per_class(results, conf_thresh=args.conf)\<close> of lines 56 and 99,
  on the answer of the model as it is: on a list, line 8 (\<^verbatim>\<open>names = results.names\<close>)
  raises \<^verbatim>\<open>AttributeError\<close>.
\<close>

definition count_call :: "(pyfloat \<Rightarrow> pyfloat) \<Rightarrow> model_output \<Rightarrow> pyfloat \<Rightarrow> error + counts" where
  "count_call cast out conf_thresh =
     (case out of
        Plain xs \<Rightarrow> Inl AttributeError
      | Named r \<Rightarrow> Inr (count_per_class cast r conf_thresh))"

text \<open>
  One pass of the loop reads these from outside: the frame of \<^verbatim>\<open>cap.read()\<close>, the
  answer of \<^verbatim>\<open>model.predict\<close>, the key of \<^verbatim>\<open>cv2.waitKey(1)\<close>, the clock at
  line 116, whether the destination can be opened at line 117, and the clock at line 118.
\<close>

record tick =
  raw :: frame
  predicted :: model_output
  key :: int
  now :: real
  csv_ok :: bool
  now_after :: real

text \<open>
  Everything else the run reads from outside. \<open>ticks\<close> are the frames the source
  delivers before \<^verbatim>\<open>cap.read()\<close> reports the end of the stream: a run whose loop
  ends has read finitely many frames, and a camera that never stops and a user who
  never presses the escape key keep the program in the loop for ever, which no list
  describes.
\<close>

record env =
  numpy_cast :: "pyfloat \<Rightarrow> pyfloat"
  text_width :: "caption \<Rightarrow> int"
  annotated_path :: "string \<Rightarrow> string"
  still_results :: model_output
  still_image :: frame
  still_csv_ok :: bool
  cap_opened :: bool
  cap_fps :: real
  cap_width :: real
  cap_height :: real
  ticks :: "tick list"

datatype outcome = Returned | Sys_exit string | Raised error

definition exit_status :: "outcome \<Rightarrow> int" where
  \<comment> \<open>the interpreter's exit status: 0 after a return, 1 after
      \<^verbatim>\<open>SystemExit\<close> with a message or an uncaught exception\<close>
  "exit_status out = (case out of Returned \<Rightarrow> 0 | Sys_exit msg \<Rightarrow> 1 | Raised e \<Rightarrow> 1)"

section \<open>\<^verbatim>\<open>main\<close>: a still image\<close>

definition lower_char :: "char \<Rightarrow> char" where
  \<comment> \<open>\<^verbatim>\<open>str.lower\<close> on one character: the ASCII capitals; other bytes stay\<close>
  "lower_char c =
     (let n = (of_char c :: nat) in if 65 \<le> n \<and> n \<le> 90 then char_of (n + 32) else c)"

definition endswith :: "string \<Rightarrow> string \<Rightarrow> bool" where
  "endswith s suf = (length suf \<le> length s \<and> drop (length s - length suf) s = suf)"

definition is_image :: "string \<Rightarrow> bool" where
  \<comment> \<open>line 54\<close>
  "is_image src =
     (\<exists>suf \<in> set [''.jpg'', ''.jpeg'', ''.png'', ''.bmp'', ''.webp'', ''.tif'', ''.tiff''].
        endswith (map lower_char src) suf)"

text \<open>Lines 55 to 68.\<close>

definition still_main :: "env \<Rightarrow> args \<Rightarrow> world \<Rightarrow> outcome \<times> world" where
  "still_main e a w0 =
     (let results = still_results e;
          w1 = emit [Model_call] w0
      in case count_call (numpy_cast e) results (args_conf a) of
           Inl x \<Rightarrow> (Raised x, w1)
         | Inr counts \<Rightarrow>
             let w2 = emit [Print_counts counts] w1;
                 (err, w3) =
                   (if truthy (csv a)
                    then (case save_counts_csv counts (the (csv a)) (still_csv_ok e) w2 of
                            (None, w') \<Rightarrow> (None, emit [Print_saved_csv (the (csv a))] w')
                          | (Some x, w') \<Rightarrow> (Some x, w'))
                    else (None, w2))
             in case err of
                  Some x \<Rightarrow> (Raised x, w3)
                | None \<Rightarrow>
                    if save a
                    then (let w4 = emit [Imread (source a)] w3
                          in case entries results of
                               [] \<Rightarrow> (Raised IndexError, w4)
                             | r0 # _ \<Rightarrow>
                                 let annotated =
                                       annotate_frame (numpy_cast e) (text_width e) (still_image e)
                                         r0 (rnames r0) (args_conf a);
                                     out_path = annotated_path e (source a)
                                 in (Returned,
                                     emit [Imwrite out_path annotated, Print_saved_image out_path] w4))
                    else (Returned, w3))"

section \<open>\<^verbatim>\<open>main\<close>: a video or a camera\<close>

text \<open>The summary panel (lines 103 to 107).\<close>

fun summary_lines :: "int \<Rightarrow> (string \<times> int) list \<Rightarrow> draw_op list" where
  "summary_lines y [] = []"
| "summary_lines y ((k, v) # kvs) = Put_text (Class_text k v) (16, y) # summary_lines (y + 18) kvs"

definition overlay_summary :: "frame \<Rightarrow> counts \<Rightarrow> frame" where
  "overlay_summary frame counts =
     frame
     @ [Rectangle (10, 10) (260, 10 + 18 * (min 10 (int (length counts)) + 1)) (- 1),
        Put_text (Total_text (dict_get counts ''__total'' 0)) (16, 24)]
     @ summary_lines 44 (sorted_items counts)"

text \<open>The variables that the loop carries from one pass to the next, and the world.\<close>

record loop_state =
  last_counts :: counts
  last_csv_time :: real
  wld :: world

text \<open>Lines 89 and 90: the variables before the first pass.\<close>

definition init_state :: "world \<Rightarrow> loop_state" where
  "init_state w = \<lparr>last_counts = [], last_csv_time = 0, wld = w\<rparr>"

datatype flow = Continue | Break | Raise error

text \<open>The test of line 116.\<close>

definition csv_due :: "args \<Rightarrow> loop_state \<Rightarrow> tick \<Rightarrow> bool" where
  "csv_due a s tk = (truthy (csv a) \<and> now tk - last_csv_time s > 2)"

text \<open>
  One pass of the loop for a frame that was read (lines 94 to 118). \<open>wr\<close> says
  whether a video writer exists.
\<close>

definition iteration :: "env \<Rightarrow> args \<Rightarrow> bool \<Rightarrow> tick \<Rightarrow> loop_state \<Rightarrow> flow \<times> loop_state" where
  "iteration e a wr tk s =
     (let s1 = s\<lparr>wld := emit [Cap_read, Model_call] (wld s)\<rparr>
      in case entries (predicted tk) of
           [] \<Rightarrow> (Raise IndexError, s1)
         | r0 # _ \<Rightarrow>
             let frame1 = annotate_frame (numpy_cast e) (text_width e) (raw tk) r0 (rnames r0)
                            (args_conf a)
             in case count_call (numpy_cast e) (predicted tk) (args_conf a) of
                  Inl x \<Rightarrow> (Raise x, s1)
                | Inr counts \<Rightarrow>
                    let frame2 = overlay_summary frame1 counts;
                        s2 = s1\<lparr>last_counts := counts,
                                 wld := emit ((if wr then [Writer_write frame2] else [])
                                              @ [Imshow frame2, Wait_key]) (wld s1)\<rparr>
                    in if key tk AND 255 = 27 then (Break, s2)
                       else if csv_due a s2 tk
                       then (case save_counts_csv counts (the (csv a)) (csv_ok tk) (wld s2) of
                               (Some x, w') \<Rightarrow> (Raise x, s2\<lparr>wld := w'\<rparr>)
                             | (None, w') \<Rightarrow>
                                 (Continue, s2\<lparr>wld := w', last_csv_time := now_after tk\<rparr>))
                       else (Continue, s2))"

text \<open>
  The loop (lines 91 to 118). When the frames run out \<^verbatim>\<open>cap.read()\<close> answers
  \<^verbatim>\<open>ok = False\<close> and the loop is left. The result says whether the loop was left
  by \<^verbatim>\<open>break\<close> (\<open>None\<close>) or by an exception.
\<close>

fun run_loop :: "env \<Rightarrow> args \<Rightarrow> bool \<Rightarrow> tick list \<Rightarrow> loop_state \<Rightarrow> error option \<times> loop_state" where
  "run_loop e a wr [] s = (None, s\<lparr>wld := emit [Cap_read] (wld s)\<rparr>)"
| "run_loop e a wr (tk # tks) s =
     (case iteration e a wr tk s of
        (Continue, s') \<Rightarrow> run_loop e a wr tks s'
      | (Break, s') \<Rightarrow> (None, s')
      | (Raise x, s') \<Rightarrow> (Some x, s'))"

text \<open>After the loop (lines 120 to 125).\<close>

definition closing :: "args \<Rightarrow> bool \<Rightarrow> loop_state \<Rightarrow> world" where
  "closing a wr s =
     emit ([Cap_release] @ (if wr then [Writer_release] else []) @ [Destroy_all_windows]
           @ (if last_counts s \<noteq> [] \<and> truthy (csv a)
              then [Print_final_counts (last_counts s), Print_saved_csv (the (csv a))]
              else []))
          (wld s)"

text \<open>
  Lines 76 to 87: the video writer, when \<^verbatim>\<open>--save\<close> is given, and the window.
\<close>

definition open_sinks :: "env \<Rightarrow> args \<Rightarrow> world \<Rightarrow> world" where
  "open_sinks e a w1 =
     (let w2 = (if save a
                then emit [Writer_open ''annotated.mp4''
                             (if cap_fps e = 0 then 30 else cap_fps e)
                             (py_int (cap_width e), py_int (cap_height e)),
                           Print_saving_to ''annotated.mp4''] w1
                else w1)
      in emit [Named_window] w2)"

text \<open>The argument of \<^verbatim>\<open>cv2.VideoCapture\<close> in line 71.\<close>

definition cap_arg :: "args \<Rightarrow> cap_source" where
  "cap_arg a = (if source a = ''0'' then Device 0 else Path_source (source a))"

text \<open>Lines 71 to 125.\<close>

definition stream_main :: "env \<Rightarrow> args \<Rightarrow> world \<Rightarrow> outcome \<times> world" where
  "stream_main e a w0 =
     (let w1 = emit [Cap_open (cap_arg a)] w0
      in if \<not> cap_opened e then (Sys_exit ''Could not open source'', w1)
         else
           case run_loop e a (save a) (ticks e) (init_state (open_sinks e a w1)) of
             (Some x, s) \<Rightarrow> (Raised x, wld s)
           | (None, s) \<Rightarrow> (Returned, closing a (save a) s))"

definition main :: "env \<Rightarrow> args \<Rightarrow> world \<Rightarrow> outcome \<times> world" where
  "main e a w0 =
     (let w1 = emit [Load_model (model a)] w0
      in if is_image (source a) then still_main e a w1 else stream_main e a w1)"

section \<open>Reading a trace\<close>

text \<open>
  The frame reads and the snapshot writes of a trace, in order: every call of
  \<^verbatim>\<open>cap.read()\<close> and every \<^verbatim>\<open>open(out_csv, "w")\<close>.
\<close>

fun csv_log :: "event list \<Rightarrow> event list" where
  "csv_log [] = []"
| "csv_log (Cap_read # es) = Cap_read # csv_log es"
| "csv_log (Open_write p # es) = Open_write p # csv_log es"
| "csv_log (ev # es) = csv_log es"

section \<open>Concrete inputs\<close>

text \<open>
  A model with three classes, the third of which is named \<^verbatim>\<open>__total\<close>; a
  detection of a given confidence and class; a result object with a table of names;
  the conversion of the threshold that changes nothing, as up to NumPy 1; a pass of the
  loop in which the model answers a list with one result, no key is pressed
  (\<^verbatim>\<open>waitKey\<close> answers \<open>-1\<close>) and a write takes no time; a run on a video file with
  a snapshot destination.
\<close>

definition demo_names :: "int \<Rightarrow> string" where
  "demo_names i = (if i = 0 then ''cat'' else if i = 1 then ''dog'' else ''__total'')"

definition det :: "real \<Rightarrow> real \<Rightarrow> detection" where
  "det c k = \<lparr>box = (2, 30, 50, 60), conf = Finite c, cls = k\<rparr>"

definition nan_det :: "real \<Rightarrow> detection" where
  "nan_det k = \<lparr>box = (2, 30, 50, 60), conf = NaN, cls = k\<rparr>"

definition one_frame :: "detection list \<Rightarrow> results" where
  "one_frame ds = \<lparr>names = demo_names, rs = [\<lparr>boxes = ds, rnames = demo_names\<rparr>]\<rparr>"

definition unchanged :: "pyfloat \<Rightarrow> pyfloat" where
  "unchanged t = t"

definition demo_tick :: "detection list \<Rightarrow> real \<Rightarrow> bool \<Rightarrow> tick" where
  "demo_tick ds t ok =
     \<lparr>raw = [], predicted = Plain [\<lparr>boxes = ds, rnames = demo_names\<rparr>], key = - 1, now = t,
      csv_ok = ok, now_after = t\<rparr>"

definition demo_env :: "bool \<Rightarrow> tick list \<Rightarrow> env" where
  "demo_env opened tks =
     \<lparr>numpy_cast = unchanged, text_width = (\<lambda>c. 40), annotated_path = (\<lambda>p. ''annotated.png''),
      still_results = Plain [\<lparr>boxes = [], rnames = demo_names\<rparr>], still_image = [],
      still_csv_ok = False, cap_opened = opened, cap_fps = 30, cap_width = 640,
      cap_height = 480, ticks = tks\<rparr>"

definition demo_args :: args where
  "demo_args =
     \<lparr>source = ''clip.mp4'', model = ''yolov8n.pt'', args_conf = Finite 0.25, save = False,
      csv = Some ''out.csv''\<rparr>"

definition empty_world :: world where
  "empty_world = \<lparr>files = Map.empty, trace = []\<rparr>"

section \<open>Facts about the filter\<close>

lemma not_flt_less: "\<not> flt_less c u \<longleftrightarrow> c = NaN \<or> u = NaN \<or> flt_le u c"
  by (cases c; cases u) auto

lemma flt_less_le_trans: "flt_less a b \<Longrightarrow> flt_le b c \<Longrightarrow> flt_less a c"
  by (cases a; cases b; cases c) auto

lemma accepted_filter: "accepted cast t ds = filter (\<lambda>d. \<not> below cast (conf d) t) ds"
  by (induction ds) simp_all

lemma foldl_count_step:
  "foldl (count_step cast nm t) c ds = foldl (bump nm) c (accepted cast t ds)"
  by (induction ds arbitrary: c) (simp_all add: count_step_def)

lemma foldl_count_result:
  "foldl (count_result cast nm t) c rl = foldl (count_step cast nm t) c (concat (map boxes rl))"
  by (induction rl arbitrary: c) (simp_all add: count_result_def)

lemma count_loop_accepted:
  "count_loop cast results t = foldl (bump (names results)) [] (accepted cast t (all_boxes results))"
  by (simp add: count_loop_def all_boxes_def foldl_count_result foldl_count_step)

lemma foldl_annotate_step:
  "foldl (annotate_step cast tw nm t) frame ds =
     frame @ concat (map (draw_detection tw nm) (accepted cast t ds))"
  by (induction ds arbitrary: frame) (simp_all add: annotate_step_def)

section \<open>Facts about the tally\<close>

lemma vsum_bump:
  "sum_list (map snd (filter (\<lambda>p. P (fst p)) (bump nm c d))) =
     sum_list (map snd (filter (\<lambda>p. P (fst p)) c)) + (if P (label_of nm d) then 1 else 0)"
proof -
  have "sum_list (map snd (filter (\<lambda>p. P (fst p)) (AList.update k (dict_get c k 0 + 1) c))) =
          sum_list (map snd (filter (\<lambda>p. P (fst p)) c)) + (if P k then 1 else 0)" for k
    by (induction c) (auto simp: dict_get_def)
  then show ?thesis by (simp add: bump_def label_of_def Let_def)
qed

lemma vsum_foldl_bump:
  "sum_list (map snd (filter (\<lambda>p. P (fst p)) (foldl (bump nm) c ds))) =
     sum_list (map snd (filter (\<lambda>p. P (fst p)) c))
     + int (length (filter (\<lambda>d. P (label_of nm d)) ds))"
  by (induction ds arbitrary: c) (simp_all add: vsum_bump)

lemma map_of_bump:
  "map_of (bump nm c d) l =
     (if label_of nm d = l then Some (dict_get c l 0 + 1) else map_of c l)"
  by (simp add: bump_def Let_def label_of_def update_conv')

lemma dict_get_bump:
  "dict_get (bump nm c d) l 0 = dict_get c l 0 + (if label_of nm d = l then 1 else 0)"
  by (simp add: dict_get_def map_of_bump)

lemma map_of_foldl_bump:
  "map_of (foldl (bump nm) c ds) l =
     (if filter (\<lambda>d. label_of nm d = l) ds = [] then map_of c l
      else Some (dict_get c l 0 + int (length (filter (\<lambda>d. label_of nm d = l) ds))))"
  by (induction ds arbitrary: c) (simp_all add: map_of_bump dict_get_bump)

lemma map_of_count_loop:
  "map_of (count_loop cast results t) l =
     (if hits cast (names results) t (all_boxes results) l = 0 then None
      else Some (int (hits cast (names results) t (all_boxes results) l)))"
  by (simp add: count_loop_accepted map_of_foldl_bump hits_def dict_get_def)

lemma distinct_bump: "distinct (map fst c) \<Longrightarrow> distinct (map fst (bump nm c d))"
  by (simp add: bump_def Let_def distinct_update)

lemma distinct_foldl_bump:
  "distinct (map fst c) \<Longrightarrow> distinct (map fst (foldl (bump nm) c ds))"
  by (induction ds arbitrary: c) (simp_all add: distinct_bump)

lemma distinct_count_per_class: "distinct (map fst (count_per_class cast results t))"
  by (simp add: count_per_class_def store_total_def distinct_update count_loop_accepted
      distinct_foldl_bump)

lemma filter_update_same:
  "filter (\<lambda>(k', v'). k' \<noteq> k) (AList.update k v c) = filter (\<lambda>(k', v'). k' \<noteq> k) c"
  by (induction c) auto

lemma per_category_store_total: "per_category (store_total c) = per_category c"
  by (simp add: per_category_def store_total_def filter_update_same)

lemma total_of_store_total: "total_of (store_total c) = sum_list (map snd (per_category c))"
  by (simp add: total_of_def store_total_def dict_get_def update_conv' per_category_def)

lemma sum_per_category_count_loop:
  "sum_list (map snd (per_category (count_loop cast results t))) =
     int (length (filter (\<lambda>d. label_of (names results) d \<noteq> ''__total'')
                    (accepted cast t (all_boxes results))))"
proof -
  have "per_category c = filter (\<lambda>p. fst p \<noteq> ''__total'') c" for c
    by (simp add: per_category_def case_prod_unfold)
  then show ?thesis
    using vsum_foldl_bump [where P = "\<lambda>k. k \<noteq> ''__total''" and c = "[]"]
    by (simp add: count_loop_accepted)
qed

lemma map_of_per_category:
  "map_of (per_category c) l = (if l = ''__total'' then None else map_of c l)"
  by (induction c) (auto simp: per_category_def)

text \<open>
  Claim C8. For every detection sequence and thresholds \<open>t1 \<le> t2\<close>, the filter
  accepts at most as many detections at \<open>t2\<close> as at \<open>t1\<close>: for every conversion
  of the threshold that keeps the order of thresholds, as the identity and the
  rounding to single precision do, and in particular for real thresholds compared as
  they are. Confidences may be infinite or NaN.
\<close>

theorem accepted_count_antimono:
  "(flt_le t1 t2 \<and> order_preserving cast \<longrightarrow>
      length (accepted cast t2 D) \<le> length (accepted cast t1 D))
   \<and> (r1 \<le> r2 \<longrightarrow>
        length (accepted unchanged (Finite r2) D) \<le> length (accepted unchanged (Finite r1) D))"
proof -
  have general: "length (accepted cast t2 D) \<le> length (accepted cast t1 D)"
    if "flt_le t1 t2" and "order_preserving cast" for cast t1 t2
  proof (induction D)
    case Nil
    show ?case by simp
  next
    case (Cons d D)
    from that have "flt_le (cast t1) (cast t2)"
      by (simp add: order_preserving_def)
    then have "below cast (conf d) t1 \<Longrightarrow> below cast (conf d) t2"
      unfolding below_def by (rule flt_less_le_trans [rotated])
    with Cons show ?case
      by auto
  qed
  have "order_preserving unchanged"
    by (simp add: order_preserving_def unchanged_def)
  with general [of "Finite r1" "Finite r2" unchanged] general [of t1 t2 cast]
  show ?thesis
    by simp
qed

text \<open>
  Claim C8 at thresholds 0.25 and 0.6 on three detections of confidence 0.9, 0.2 and 0.5:
  two are accepted at 0.25 and one at 0.6.
\<close>

theorem accepted_count_antimono_witness:
  "flt_le (Finite 0.25) (Finite 0.6)
   \<and> order_preserving unchanged
   \<and> length (accepted unchanged (Finite 0.6) [det 0.9 0, det 0.2 1, det 0.5 0]) = 1
   \<and> length (accepted unchanged (Finite 0.25) [det 0.9 0, det 0.2 1, det 0.5 0]) = 2
   \<and> length (accepted unchanged (Finite 0.6) [det 0.9 0, det 0.2 1, det 0.5 0])
       \<le> length (accepted unchanged (Finite 0.25) [det 0.9 0, det 0.2 1, det 0.5 0])"
proof -
  have le: "flt_le (Finite 0.25) (Finite 0.6)"
    by simp
  have op: "order_preserving unchanged"
    by (simp add: order_preserving_def unchanged_def)
  from accepted_count_antimono [where ?t1.0 = "Finite 0.25" and ?t2.0 = "Finite 0.6"
      and cast = unchanged and D = "[det 0.9 0, det 0.2 1, det 0.5 0]"] le op
  show ?thesis
    by (simp add: det_def below_def unchanged_def)
qed

text \<open>
  Claim C2, amended. A detection is kept exactly when the comparison
  \<^verbatim>\<open>conf < conf_thresh\<close> is false: when its confidence is at least the threshold as
  numpy compares it, or the confidence or that threshold is NaN. When neither is NaN
  and the conversion leaves the threshold as it is, a detection is kept exactly when
  its confidence is at least the threshold, equality included. The kept detections are
  the input with the others removed, in the order of the input; and both
  \<^verbatim>\<open>count_per_class\<close> and \<^verbatim>\<open>annotate_frame\<close> work on exactly the kept detections:
  the first tallies them, the second draws them.
\<close>

theorem detection_filter_rule:
  "(d \<in> set (accepted cast t D) \<longleftrightarrow>
      d \<in> set D \<and> (conf d = NaN \<or> cast t = NaN \<or> flt_le (cast t) (conf d)))
   \<and> (conf d \<noteq> NaN \<and> t \<noteq> NaN \<and> cast t = t \<longrightarrow>
        (d \<in> set (accepted cast t D) \<longleftrightarrow> d \<in> set D \<and> flt_le t (conf d)))
   \<and> accepted cast t D = filter (\<lambda>x. \<not> flt_less (conf x) (cast t)) D
   \<and> subseq (accepted cast t D) D
   \<and> count_per_class cast results t =
       store_total (foldl (bump (names results)) [] (accepted cast t (all_boxes results)))
   \<and> annotate_frame cast tw frame r nm t =
       frame @ concat (map (draw_detection tw nm) (accepted cast t (boxes r)))"
proof -
  have f: "accepted cast t D = filter (\<lambda>x. \<not> flt_less (conf x) (cast t)) D"
    by (simp add: accepted_filter below_def)
  have m: "d \<in> set (accepted cast t D) \<longleftrightarrow>
             d \<in> set D \<and> (conf d = NaN \<or> cast t = NaN \<or> flt_le (cast t) (conf d))"
    by (simp add: f not_flt_less)
  have e: "d \<in> set (accepted cast t D) \<longleftrightarrow> d \<in> set D \<and> flt_le t (conf d)"
    if "conf d \<noteq> NaN \<and> t \<noteq> NaN \<and> cast t = t"
    using that m by simp
  have s: "subseq (accepted cast t D) D"
    by (simp add: f)
  have c: "count_per_class cast results t =
             store_total (foldl (bump (names results)) [] (accepted cast t (all_boxes results)))"
    by (simp add: count_per_class_def count_loop_accepted)
  have a: "annotate_frame cast tw frame r nm t =
             frame @ concat (map (draw_detection tw nm) (accepted cast t (boxes r)))"
    by (simp add: annotate_frame_def foldl_annotate_step)
  from m e f s c a show ?thesis
    by blast
qed

text \<open>
  Claim C2, amended, at threshold 0.25 with the threshold compared as it is: a detection
  of confidence exactly 0.25 is kept, one of confidence 0.2 is dropped, and one whose
  confidence is NaN is kept.
\<close>

theorem detection_filter_rule_witness:
  "conf (det 0.25 1) \<noteq> NaN \<and> Finite 0.25 \<noteq> NaN \<and> unchanged (Finite 0.25) = Finite 0.25
   \<and> det 0.25 1 \<in> set (accepted unchanged (Finite 0.25) [det 0.9 0, det 0.25 1, nan_det 0, det 0.2 1])
   \<and> det 0.2 1 \<notin> set (accepted unchanged (Finite 0.25) [det 0.9 0, det 0.25 1, nan_det 0, det 0.2 1])
   \<and> accepted unchanged (Finite 0.25) [det 0.9 0, det 0.25 1, nan_det 0, det 0.2 1]
       = [det 0.9 0, det 0.25 1, nan_det 0]
   \<and> subseq (accepted unchanged (Finite 0.25) [det 0.9 0, det 0.25 1, nan_det 0, det 0.2 1])
        [det 0.9 0, det 0.25 1, nan_det 0, det 0.2 1]"
  using detection_filter_rule [where d = "det 0.25 1" and cast = unchanged and t = "Finite 0.25"
      and D = "[det 0.9 0, det 0.25 1, nan_det 0, det 0.2 1]"]
    detection_filter_rule [where d = "det 0.2 1" and cast = unchanged and t = "Finite 0.25"
      and D = "[det 0.9 0, det 0.25 1, nan_det 0, det 0.2 1]"]
  by (simp add: det_def below_def unchanged_def nan_det_def)

text \<open>
  Claim C2 as stated fails on NaN. With the threshold NaN (\<^verbatim>\<open>--conf nan\<close>) a
  detection of confidence 0.9 is kept, and at threshold 0.25 a detection whose
  confidence is NaN is kept, though in neither case the confidence is at least the
  threshold: both comparisons \<^verbatim>\<open>conf < conf_thresh\<close> and \<^verbatim>\<open>conf >= conf_thresh\<close> are
  false.
\<close>

theorem detection_filter_counterexample:
  "accepted unchanged NaN [det 0.9 0] = [det 0.9 0]
   \<and> \<not> flt_le NaN (conf (det 0.9 0))
   \<and> accepted unchanged (Finite 0.25) [nan_det 0] = [nan_det 0]
   \<and> \<not> flt_le (Finite 0.25) (conf (nan_det 0))
   \<and> count_per_class unchanged (one_frame [det 0.9 0]) NaN = [(''cat'', 1), (''__total'', 1)]"
  by (simp add: det_def below_def unchanged_def nan_det_def one_frame_def demo_names_def
      py_int_def count_per_class_def count_loop_def count_result_def count_step_def bump_def
      store_total_def dict_get_def)

lemma count_per_class_Nil:
  "accepted cast t (all_boxes R) = [] \<Longrightarrow> count_per_class cast R t = [(''__total'', 0)]"
  by (simp add: count_per_class_def count_loop_accepted store_total_def)

text \<open>
  Claim C3 as stated fails where an accepted detection resolves to the label
  \<^verbatim>\<open>__total\<close>: two detections are accepted, the sum of the per-category counts and
  the total are 1.
\<close>

theorem total_equals_accepted_counterexample:
  "accepted unchanged (Finite 0.25) (all_boxes (one_frame [det 0.9 2, det 0.9 0])) = [det 0.9 2, det 0.9 0]
   \<and> label_of demo_names (det 0.9 2) = ''__total''
   \<and> count_per_class unchanged (one_frame [det 0.9 2, det 0.9 0]) (Finite 0.25) = [(''__total'', 1), (''cat'', 1)]
   \<and> total_of (count_per_class unchanged (one_frame [det 0.9 2, det 0.9 0]) (Finite 0.25)) = 1
   \<and> sum_list (map snd (per_category (count_per_class unchanged (one_frame [det 0.9 2, det 0.9 0]) (Finite 0.25))))
       \<noteq> int (length (accepted unchanged (Finite 0.25) (all_boxes (one_frame [det 0.9 2, det 0.9 0]))))"
  by (simp add: all_boxes_def one_frame_def det_def below_def unchanged_def label_of_def demo_names_def py_int_def
      count_per_class_def count_loop_def count_result_def count_step_def bump_def
      store_total_def dict_get_def total_of_def per_category_def)

text \<open>
  Claim C3, amended. The total of a snapshot is the sum of its per-category counts, and
  that sum is the number of accepted detections whose label is not \<^verbatim>\<open>__total\<close>; it
  is the number of all accepted detections whenever none of them resolves to
  \<^verbatim>\<open>__total\<close>. With no accepted detection the per-category items are empty and the
  total is 0.
\<close>

theorem snapshot_total_sum:
  "total_of (count_per_class cast R t) = sum_list (map snd (per_category (count_per_class cast R t)))
   \<and> sum_list (map snd (per_category (count_per_class cast R t))) =
       int (length (filter (\<lambda>d. label_of (names R) d \<noteq> ''__total'') (accepted cast t (all_boxes R))))
   \<and> ((\<forall>d \<in> set (accepted cast t (all_boxes R)). label_of (names R) d \<noteq> ''__total'') \<longrightarrow>
        total_of (count_per_class cast R t) = int (length (accepted cast t (all_boxes R))))
   \<and> (accepted cast t (all_boxes R) = [] \<longrightarrow>
        per_category (count_per_class cast R t) = [] \<and> total_of (count_per_class cast R t) = 0)"
proof -
  let ?c = "count_per_class cast R t"
  let ?F = "accepted cast t (all_boxes R)"
  have a: "total_of ?c = sum_list (map snd (per_category ?c))"
    by (simp add: count_per_class_def total_of_store_total per_category_store_total)
  have b: "sum_list (map snd (per_category ?c)) =
             int (length (filter (\<lambda>d. label_of (names R) d \<noteq> ''__total'') ?F))"
    by (simp add: count_per_class_def per_category_store_total sum_per_category_count_loop)
  have c: "total_of ?c = int (length ?F)"
    if "\<forall>d \<in> set ?F. label_of (names R) d \<noteq> ''__total''"
  proof -
    from that have "filter (\<lambda>d. label_of (names R) d \<noteq> ''__total'') ?F = ?F"
      by (simp add: filter_id_conv)
    with a b show ?thesis by simp
  qed
  have d: "per_category ?c = [] \<and> total_of ?c = 0" if "?F = []"
    using that by (simp add: count_per_class_Nil per_category_def total_of_def dict_get_def)
  from a b c d show ?thesis by blast
qed

text \<open>
  Claim C3, amended, on the detections of confidence 0.9, 0.2 and 0.5 with classes cat,
  dog and cat at threshold 0.25 (total 2), and on a frame with no detection.
\<close>

theorem snapshot_total_sum_witness:
  "map (label_of (names (one_frame [det 0.9 0, det 0.2 1, det 0.5 0])))
     (accepted unchanged (Finite 0.25) (all_boxes (one_frame [det 0.9 0, det 0.2 1, det 0.5 0]))) = [''cat'', ''cat'']
   \<and> total_of (count_per_class unchanged (one_frame [det 0.9 0, det 0.2 1, det 0.5 0]) (Finite 0.25)) = 2
   \<and> accepted unchanged (Finite 0.25) (all_boxes (one_frame [])) = []
   \<and> per_category (count_per_class unchanged (one_frame []) (Finite 0.25)) = []
   \<and> total_of (count_per_class unchanged (one_frame []) (Finite 0.25)) = 0"
  using snapshot_total_sum [where cast = unchanged and t = "Finite 0.25"
      and R = "one_frame [det 0.9 0, det 0.2 1, det 0.5 0]"]
    snapshot_total_sum [where cast = unchanged and t = "Finite 0.25" and R = "one_frame []"]
  by (simp add: all_boxes_def one_frame_def det_def below_def unchanged_def label_of_def demo_names_def py_int_def)

text \<open>
  Claim C9 as stated fails for the key \<^verbatim>\<open>__total\<close>. One accepted detection resolves
  to it, yet it is no per-category key, and in the dictionary its count is 0; with no
  detection at all the dictionary still has the key, again with count 0.
\<close>

theorem category_keys_counterexample:
  "accepted unchanged (Finite 0.25) (all_boxes (one_frame [det 0.9 2])) = [det 0.9 2]
   \<and> label_of (names (one_frame [det 0.9 2])) (det 0.9 2) = ''__total''
   \<and> ''__total'' \<notin> fst ` set (per_category (count_per_class unchanged (one_frame [det 0.9 2]) (Finite 0.25)))
   \<and> map_of (count_per_class unchanged (one_frame [det 0.9 2]) (Finite 0.25)) ''__total'' = Some 0
   \<and> accepted unchanged (Finite 0.25) (all_boxes (one_frame [])) = []
   \<and> map_of (count_per_class unchanged (one_frame []) (Finite 0.25)) ''__total'' = Some 0"
  by (simp add: all_boxes_def one_frame_def det_def below_def unchanged_def label_of_def demo_names_def py_int_def
      count_per_class_def count_loop_def count_result_def count_step_def bump_def
      store_total_def dict_get_def per_category_def)

lemma hits_pos_iff:
  "0 < hits cast nm t ds l \<longleftrightarrow> (\<exists>d \<in> set (accepted cast t ds). label_of nm d = l)"
  by (auto simp: hits_def filter_empty_conv)

lemma map_of_count_per_class_other:
  "l \<noteq> ''__total'' \<Longrightarrow> map_of (count_per_class cast R t) l = map_of (count_loop cast R t) l"
  by (simp add: count_per_class_def store_total_def update_conv')

text \<open>
  Claim C9, amended. The keys of a snapshot are distinct. Every label other than
  \<^verbatim>\<open>__total\<close> is a key exactly when an accepted detection resolves to it, and its
  count is then the number of those detections; so the per-category labels are the
  labels other than \<^verbatim>\<open>__total\<close> of the accepted detections, each with a count of at
  least 1.
\<close>

theorem category_keys:
  "distinct (map fst (count_per_class cast R t))
   \<and> (l \<noteq> ''__total'' \<longrightarrow>
        map_of (count_per_class cast R t) l =
          (if hits cast (names R) t (all_boxes R) l = 0 then None
           else Some (int (hits cast (names R) t (all_boxes R) l))))
   \<and> (l \<in> fst ` set (per_category (count_per_class cast R t)) \<longleftrightarrow>
        l \<noteq> ''__total'' \<and> (\<exists>d \<in> set (accepted cast t (all_boxes R)). label_of (names R) d = l))
   \<and> (\<forall>(k, v) \<in> set (per_category (count_per_class cast R t)).
        1 \<le> v \<and> v = int (hits cast (names R) t (all_boxes R) k))"
proof -
  let ?c = "count_per_class cast R t"
  let ?h = "hits cast (names R) t (all_boxes R)"
  have m: "map_of ?c k = (if ?h k = 0 then None else Some (int (?h k)))"
    if "k \<noteq> ''__total''" for k
    using that by (simp add: map_of_count_per_class_other map_of_count_loop)
  have key: "l \<in> fst ` set (per_category ?c) \<longleftrightarrow>
               l \<noteq> ''__total'' \<and> (\<exists>d \<in> set (accepted cast t (all_boxes R)). label_of (names R) d = l)"
  proof -
    have "l \<in> fst ` set (per_category ?c) \<longleftrightarrow> map_of (per_category ?c) l \<noteq> None"
      by (simp add: map_of_eq_None_iff)
    also have "\<dots> \<longleftrightarrow> l \<noteq> ''__total'' \<and> 0 < ?h l"
      using m [of l] by (simp add: map_of_per_category)
    finally show ?thesis by (simp add: hits_pos_iff)
  qed
  have val: "1 \<le> v \<and> v = int (?h k)" if "(k, v) \<in> set (per_category ?c)" for k v
  proof -
    from that have k: "k \<noteq> ''__total''" and "(k, v) \<in> set ?c"
      by (auto simp: per_category_def)
    then have "map_of ?c k = Some v"
      by (simp add: distinct_count_per_class)
    with m [OF k] show ?thesis by (auto split: if_splits)
  qed
  from m [of l] key val distinct_count_per_class [of cast R t] show ?thesis by blast
qed

text \<open>
  Claim C9, amended, on the detections cat 0.9, dog 0.2, cat 0.5 at threshold 0.25:
  cat has count 2 and dog is no key.
\<close>

theorem category_keys_witness:
  "''cat'' \<noteq> ''__total''
   \<and> map_of (count_per_class unchanged (one_frame [det 0.9 0, det 0.2 1, det 0.5 0]) (Finite 0.25)) ''cat'' = Some 2
   \<and> map_of (count_per_class unchanged (one_frame [det 0.9 0, det 0.2 1, det 0.5 0]) (Finite 0.25)) ''dog'' = None
   \<and> accepted unchanged (Finite 0.25) (all_boxes (one_frame [det 0.9 0, det 0.2 1, det 0.5 0])) = [det 0.9 0, det 0.5 0]"
  using category_keys [where cast = unchanged and t = "Finite 0.25" and l = "''cat''"
      and R = "one_frame [det 0.9 0, det 0.2 1, det 0.5 0]"]
    category_keys [where cast = unchanged and t = "Finite 0.25" and l = "''dog''"
      and R = "one_frame [det 0.9 0, det 0.2 1, det 0.5 0]"]
  by (simp add: hits_def all_boxes_def one_frame_def det_def below_def unchanged_def label_of_def demo_names_def py_int_def
      case_prod_unfold)


lemma length_filter_split:
  "int (length xs) = int (length (filter P xs)) + int (length (filter (\<lambda>x. \<not> P x) xs))"
  using sum_length_filter_compl [of P xs] by linarith

lemma sorted_items_keys: "fst ` set (sorted_items c) = fst ` set (per_category c)"
  by (simp add: sorted_items_def per_category_def)

lemma drop_csv_rows: "drop 2 (csv_rows c) = map (\<lambda>(k, v). [Str k, Num v]) (sorted_items c)"
  by (simp add: csv_rows_def)

text \<open>
  Claim C10. The total is stored in the dictionary of the counts under the key
  \<^verbatim>\<open>__total\<close>. Where an accepted detection resolves to the label \<^verbatim>\<open>__total\<close>, the
  loop tallies those detections under that key, line 17 then overwrites the tally with
  the sum of the other counts, so they are missing from the total and from the category
  rows of the CSV, and the total differs from the number of accepted detections.
\<close>

theorem reserved_key_collision:
  assumes "\<exists>d \<in> set (accepted cast t (all_boxes R)). label_of (names R) d = ''__total''"
  shows "count_per_class cast R t =
           AList.update ''__total'' (sum_list (map snd (per_category (count_loop cast R t)))) (count_loop cast R t)
         \<and> map_of (count_loop cast R t) ''__total'' = Some (int (hits cast (names R) t (all_boxes R) ''__total''))
         \<and> 0 < hits cast (names R) t (all_boxes R) ''__total''
         \<and> map_of (count_per_class cast R t) ''__total'' =
             Some (int (length (accepted cast t (all_boxes R)))
                   - int (hits cast (names R) t (all_boxes R) ''__total''))
         \<and> total_of (count_per_class cast R t) =
             int (length (accepted cast t (all_boxes R)))
             - int (hits cast (names R) t (all_boxes R) ''__total'')
         \<and> ''__total'' \<notin> fst ` set (sorted_items (count_per_class cast R t))
         \<and> (\<forall>row \<in> set (drop 2 (csv_rows (count_per_class cast R t))). hd row \<noteq> Str ''__total'')
         \<and> total_of (count_per_class cast R t) \<noteq> int (length (accepted cast t (all_boxes R)))"
proof -
  let ?c = "count_per_class cast R t"
  let ?F = "accepted cast t (all_boxes R)"
  let ?h = "hits cast (names R) t (all_boxes R) ''__total''"
  have pos: "0 < ?h"
    using assms by (simp add: hits_pos_iff)
  have store: "?c = AList.update ''__total'' (sum_list (map snd (per_category (count_loop cast R t))))
                      (count_loop cast R t)"
    by (simp add: count_per_class_def store_total_def per_category_def)
  have tally: "map_of (count_loop cast R t) ''__total'' = Some (int ?h)"
    using pos by (simp add: map_of_count_loop)
  have split: "int (length ?F) =
                 int ?h + int (length (filter (\<lambda>d. label_of (names R) d \<noteq> ''__total'') ?F))"
    using length_filter_split [of ?F "\<lambda>d. label_of (names R) d = ''__total''"]
    by (simp add: hits_def)
  have tot: "total_of ?c = int (length ?F) - int ?h"
    using split
    by (simp add: count_per_class_def total_of_store_total sum_per_category_count_loop)
  have stored: "map_of ?c ''__total'' = Some (int (length ?F) - int ?h)"
    using split
    by (simp add: count_per_class_def store_total_def update_conv'
        sum_per_category_count_loop [unfolded per_category_def])
  have keys: "''__total'' \<notin> fst ` set (sorted_items ?c)"
    by (auto simp: sorted_items_keys per_category_def)
  have rows: "\<forall>row \<in> set (drop 2 (csv_rows ?c)). hd row \<noteq> Str ''__total''"
    using keys by (force simp: drop_csv_rows)
  have neq: "total_of ?c \<noteq> int (length ?F)"
    using tot pos by simp
  from store tally pos stored tot keys rows neq show ?thesis by blast
qed

text \<open>
  Claim C10 on three accepted detections, two of them labelled \<^verbatim>\<open>__total\<close>: the loop
  tallies 2 under the key, the snapshot holds total 1.
\<close>

theorem reserved_key_collision_witness:
  "(\<exists>d \<in> set (accepted unchanged (Finite 0.25) (all_boxes (one_frame [det 0.9 2, det 0.8 2, det 0.7 0]))).
      label_of (names (one_frame [det 0.9 2, det 0.8 2, det 0.7 0])) d = ''__total'')
   \<and> count_loop unchanged (one_frame [det 0.9 2, det 0.8 2, det 0.7 0]) (Finite 0.25) = [(''__total'', 2), (''cat'', 1)]
   \<and> count_per_class unchanged (one_frame [det 0.9 2, det 0.8 2, det 0.7 0]) (Finite 0.25) = [(''__total'', 1), (''cat'', 1)]
   \<and> total_of (count_per_class unchanged (one_frame [det 0.9 2, det 0.8 2, det 0.7 0]) (Finite 0.25)) = 1
   \<and> length (accepted unchanged (Finite 0.25) (all_boxes (one_frame [det 0.9 2, det 0.8 2, det 0.7 0]))) = 3
   \<and> ''__total'' \<notin> fst ` set (sorted_items (count_per_class unchanged (one_frame [det 0.9 2, det 0.8 2, det 0.7 0]) (Finite 0.25)))"
proof -
  have h: "\<exists>d \<in> set (accepted unchanged (Finite 0.25) (all_boxes (one_frame [det 0.9 2, det 0.8 2, det 0.7 0]))).
             label_of (names (one_frame [det 0.9 2, det 0.8 2, det 0.7 0])) d = ''__total''"
    by (simp add: all_boxes_def one_frame_def det_def below_def unchanged_def label_of_def demo_names_def py_int_def)
  have v: "count_loop unchanged (one_frame [det 0.9 2, det 0.8 2, det 0.7 0]) (Finite 0.25) = [(''__total'', 2), (''cat'', 1)]"
    by (simp add: one_frame_def det_def below_def unchanged_def demo_names_def py_int_def
        count_loop_def count_result_def count_step_def bump_def dict_get_def)
  have n: "length (accepted unchanged (Finite 0.25) (all_boxes (one_frame [det 0.9 2, det 0.8 2, det 0.7 0]))) = 3"
    by (simp add: all_boxes_def one_frame_def det_def below_def unchanged_def)
  have k: "hits unchanged (names (one_frame [det 0.9 2, det 0.8 2, det 0.7 0])) (Finite 0.25)
             (all_boxes (one_frame [det 0.9 2, det 0.8 2, det 0.7 0])) ''__total'' = 2"
    by (simp add: hits_def all_boxes_def one_frame_def det_def below_def unchanged_def label_of_def demo_names_def py_int_def)
  note r = reserved_key_collision [OF h, unfolded k n v]
  from r h v n show ?thesis
    by (simp add: per_category_def total_of_def dict_get_def sorted_items_def)
qed

section \<open>Facts about the snapshot writer\<close>

lemma sorted_map_fst_sort: "sorted (map fst (sort (xs :: (string \<times> int) list)))"
proof -
  have "sorted_wrt (\<le>) (sort xs)" by simp
  then have "sorted_wrt (\<lambda>x y. fst x \<le> fst y) (sort xs)"
    by (rule sorted_wrt_mono_rel [rotated]) (auto simp: less_eq_prod_def)
  then show ?thesis by (simp add: sorted_map)
qed

lemma distinct_keys_sorted_items:
  assumes "distinct (map fst c)"
  shows "distinct (map fst (sorted_items c))"
proof -
  have "distinct (map fst (per_category c))"
    using assms by (simp add: per_category_def distinct_map_filter)
  moreover have "mset (map fst (sorted_items c)) = mset (map fst (per_category c))"
    by (simp add: sorted_items_def per_category_def)
  ultimately show ?thesis
    by (metis mset_eq_imp_distinct_iff)
qed

lemma save_ok:
  "save_counts_csv counts p True w =
     (None, \<lparr>files = (files w)(p \<mapsto> csv_rows counts), trace = trace w @ [Open_write p]\<rparr>)"
  by (simp add: save_counts_csv_def emit_def Let_def)

lemma save_fail:
  "save_counts_csv counts p False w = (Some (OSError p), emit [Open_write p] w)"
  by (simp add: save_counts_csv_def Let_def)

text \<open>
  Claim C4. A call of \<^verbatim>\<open>save_counts_csv\<close> that can open the destination leaves in it
  exactly the header row, the row of the total and one row per per-category item, sorted
  by label (strictly, the keys of a dictionary being distinct), whatever the file held
  before; no other file changes.
\<close>

theorem csv_serialization:
  "fst (save_counts_csv counts p True w) = None
   \<and> files (snd (save_counts_csv counts p True w)) p =
       Some ([Str ''class'', Str ''count'']
             # [Str ''total'', Num (total_of counts)]
             # map (\<lambda>(k, v). [Str k, Num v]) (sorted_items counts))
   \<and> mset (sorted_items counts) = mset (per_category counts)
   \<and> sorted (map fst (sorted_items counts))
   \<and> (distinct (map fst counts) \<longrightarrow> sorted_wrt (<) (map fst (sorted_items counts)))
   \<and> (\<forall>q. q \<noteq> p \<longrightarrow> files (snd (save_counts_csv counts p True w)) q = files w q)"
proof -
  have s: "sorted (map fst (sorted_items counts))"
    by (simp add: sorted_items_def sorted_map_fst_sort)
  have d: "sorted_wrt (<) (map fst (sorted_items counts))" if "distinct (map fst counts)"
    using s distinct_keys_sorted_items [OF that] by (simp add: strict_sorted_iff)
  have m: "mset (sorted_items counts) = mset (per_category counts)"
    by (simp add: sorted_items_def per_category_def)
  from s d m show ?thesis
    by (simp add: save_ok csv_rows_def total_of_def)
qed

text \<open>
  Claim C4 on the snapshot dog 1, cat 2, total 3, written over a file that held one
  other row.
\<close>

theorem csv_serialization_witness:
  "distinct (map fst [(''dog'', 1), (''cat'', 2), (''__total'', 3 :: int)])
   \<and> files (snd (save_counts_csv [(''dog'', 1), (''cat'', 2), (''__total'', 3)] ''out.csv'' True
                   (empty_world\<lparr>files := (files empty_world)(''out.csv'' \<mapsto> [[Str ''old'']])\<rparr>)))
         ''out.csv''
       = Some [[Str ''class'', Str ''count''], [Str ''total'', Num 3],
               [Str ''cat'', Num 2], [Str ''dog'', Num 1]]
   \<and> sorted_wrt (<) (map fst (sorted_items [(''dog'', 1), (''cat'', 2), (''__total'', 3)]))"
proof -
  have s: "sorted_items [(''dog'', 1), (''cat'', 2), (''__total'', 3)] = [(''cat'', 2), (''dog'', 1)]"
    by code_simp
  show ?thesis
    using csv_serialization [of "[(''dog'', 1), (''cat'', 2), (''__total'', 3)]" "''out.csv''"
        "empty_world\<lparr>files := (files empty_world)(''out.csv'' \<mapsto> [[Str ''old'']])\<rparr>"]
    by (simp add: s total_of_def dict_get_def)
qed

section \<open>Facts about the loop\<close>

lemma csv_log_append: "csv_log (xs @ ys) = csv_log xs @ csv_log ys"
  by (induction xs rule: csv_log.induct) simp_all

lemma trace_emit: "trace (emit es w) = trace w @ es"
  by (simp add: emit_def)

lemma files_emit: "files (emit es w) = files w"
  by (simp add: emit_def)

text \<open>
  A pass in which the model answers a list ends at line 95 when the list is empty and
  at line 99 otherwise: nothing is shown, no key is read, the destination is not
  opened, and the variables of the loop keep their values.
\<close>

lemma iteration_plain:
  assumes "predicted tk = Plain xs"
  shows "iteration e a wr tk s =
           (Raise (if xs = [] then IndexError else AttributeError),
            s\<lparr>wld := emit [Cap_read, Model_call] (wld s)\<rparr>)"
  using assms
  by (cases xs) (simp_all add: iteration_def Let_def entries_def count_call_def)

lemma run_loop_plain:
  assumes "predicted tk = Plain xs"
  shows "run_loop e a wr (tk # tks) s =
           (Some (if xs = [] then IndexError else AttributeError),
            s\<lparr>wld := emit [Cap_read, Model_call] (wld s)\<rparr>)"
  by (simp add: iteration_plain [OF assms])

lemma still_main_plain:
  assumes "still_results e = Plain xs"
  shows "still_main e a w = (Raised AttributeError, emit [Model_call] w)"
  using assms by (simp add: still_main_def Let_def count_call_def)

text \<open>
  So a run in which the model answers lists, as the library does, never opens a
  snapshot destination and changes no file, whatever the arguments, the frames, the
  keys and the clock.
\<close>

lemma files_open_sinks: "files (open_sinks e a w) = files w"
  by (simp add: open_sinks_def Let_def files_emit)

lemma csv_log_open_sinks: "csv_log (trace (open_sinks e a w)) = csv_log (trace w)"
  by (simp add: open_sinks_def Let_def trace_emit csv_log_append)

lemma closing_writes_nothing:
  "files (closing a wr s) = files (wld s)
   \<and> csv_log (trace (closing a wr s)) = csv_log (trace (wld s))"
  by (simp add: closing_def files_emit trace_emit csv_log_append)

lemma plain_run_writes_nothing:
  assumes still: "\<exists>xs. still_results e = Plain xs"
    and stream: "\<forall>tk \<in> set (ticks e). \<exists>xs. predicted tk = Plain xs"
  shows "files (snd (main e a w)) = files w
         \<and> csv_log (trace (snd (main e a w))) =
             csv_log (trace w)
             @ (if is_image (source a) \<or> \<not> cap_opened e then [] else [Cap_read])"
proof (cases "is_image (source a)")
  case True
  from still obtain xs where "still_results e = Plain xs" ..
  with True show ?thesis
    by (simp add: main_def Let_def still_main_plain files_emit trace_emit csv_log_append)
next
  case False
  show ?thesis
  proof (cases "cap_opened e")
    case closed: False
    with False show ?thesis
      by (simp add: main_def stream_main_def Let_def files_emit trace_emit csv_log_append)
  next
    case opened: True
    show ?thesis
    proof (cases "ticks e")
      case Nil
      with False opened show ?thesis
        by (simp add: main_def stream_main_def Let_def closing_writes_nothing init_state_def
            files_emit trace_emit csv_log_append files_open_sinks csv_log_open_sinks)
    next
      case (Cons tk tks)
      with stream obtain xs where "predicted tk = Plain xs"
        by auto
      from run_loop_plain [OF this] Cons False opened show ?thesis
        by (simp add: main_def stream_main_def Let_def init_state_def
            files_emit trace_emit csv_log_append files_open_sinks csv_log_open_sinks)
    qed
  qed
qed

text \<open>
  The rest of the pass (lines 100 to 118) is reached only with an answer that carries
  names. There the snapshot is written exactly when a destination is given and the
  clock is more than 2 ahead of the time of the last write, and an error of the write
  leaves the loop.
\<close>

lemma iteration_named:
  assumes "predicted tk = Named r" and "rs r \<noteq> []" and "key tk AND 255 \<noteq> 27"
  shows "fst (iteration e a wr tk s) =
           (if csv_due a s tk \<and> \<not> csv_ok tk then Raise (OSError (the (csv a))) else Continue)"
    and "csv_log (trace (wld (snd (iteration e a wr tk s)))) =
           csv_log (trace (wld s)) @ [Cap_read]
           @ (if csv_due a s tk then [Open_write (the (csv a))] else [])"
  using assms
  by (cases "rs r";
      simp add: iteration_def Let_def entries_def count_call_def csv_due_def save_counts_csv_def
        trace_emit csv_log_append)+

text \<open>
  Claim C6. When the source is no still image and cannot be opened, the run ends with
  \<^verbatim>\<open>SystemExit("Could not open source")\<close>, exit status 1, after loading the model and
  trying to open the source and nothing else: no video writer, no window, no frame read,
  no model call, no file written.
\<close>

theorem source_unavailable_aborts:
  assumes "\<not> is_image (source a)" and "\<not> cap_opened e"
  shows "fst (main e a w) = Sys_exit ''Could not open source''
         \<and> exit_status (fst (main e a w)) = 1
         \<and> trace (snd (main e a w)) = trace w @ [Load_model (model a), Cap_open (cap_arg a)]
         \<and> files (snd (main e a w)) = files w"
  using assms
  by (simp add: main_def stream_main_def Let_def emit_def exit_status_def)

text \<open>
  Claim C6 on a video file that cannot be opened; the same run on a source that opens
  creates the window.
\<close>

theorem source_unavailable_aborts_witness:
  "\<not> is_image (source demo_args)
   \<and> \<not> cap_opened (demo_env False [demo_tick [det 0.9 0] 1000 True])
   \<and> fst (main (demo_env False [demo_tick [det 0.9 0] 1000 True]) demo_args empty_world)
       = Sys_exit ''Could not open source''
   \<and> trace (snd (main (demo_env False [demo_tick [det 0.9 0] 1000 True]) demo_args empty_world))
       = [Load_model ''yolov8n.pt'', Cap_open (Path_source ''clip.mp4'')]
   \<and> Named_window \<in> set (trace (snd (main (demo_env True [demo_tick [det 0.9 0] 1000 True])
         demo_args empty_world)))"
proof -
  have i: "\<not> is_image (source demo_args)"
    by code_simp
  have c: "\<not> cap_opened (demo_env False [demo_tick [det 0.9 0] 1000 True])"
    by (simp add: demo_env_def)
  have n: "Named_window \<in> set (trace (snd (main (demo_env True [demo_tick [det 0.9 0] 1000 True])
         demo_args empty_world)))"
    by code_simp
  from source_unavailable_aborts [OF i c, of empty_world] i c n show ?thesis
    by (simp add: empty_world_def demo_args_def cap_arg_def)
qed


text \<open>
  Claim C5 does not hold of the code. Three frames at clock readings 1000, 1001 and
  1002.1, that is 0, 1 and 2.1 after the first, with a destination that can be written:
  the first pass ends at line 99 before the test of line 116 is reached, so the
  destination is opened for none of the frames, the first included.
\<close>

theorem debounce_not_reached:
  "fst (main (demo_env True
         [demo_tick [] 1000 True, demo_tick [] 1001 True, demo_tick [] 1002.1 True])
         demo_args empty_world) = Raised AttributeError
   \<and> csv_log (trace (snd (main (demo_env True
         [demo_tick [] 1000 True, demo_tick [] 1001 True, demo_tick [] 1002.1 True])
         demo_args empty_world))) = [Cap_read]
   \<and> files (snd (main (demo_env True
         [demo_tick [] 1000 True, demo_tick [] 1001 True, demo_tick [] 1002.1 True])
         demo_args empty_world)) ''out.csv'' = None"
  by code_simp


end
